theory Spec2Isabelle
  imports Main
begin

section \<open>Python values\<close>

text \<open>
  The objects the component model and the security helpers handle. \<open>PyObj n t\<close> is an
  instance of any class other than \<open>Component\<close>: \<open>n\<close> names the object and \<open>t\<close> is the
  truth value its class gives it (a payload, a \<open>Task\<close>, a denial of the security layer,
  a subject). \<open>PyComp a\<close> is a reference to the \<open>Component\<close> object at address \<open>a\<close>.
\<close>

type_synonym addr = nat
type_synonym chan = nat
type_synonym listener = nat

datatype pyobj =
    PyNone
  | PyBool bool
  | PyInt int
  | PyStr string
  | PyObj nat bool
  | PyComp addr

text \<open>Python's truth test, as \<open>if x\<close>, \<open>not x\<close> and \<open>x or y\<close> apply it.\<close>

fun truthy :: "pyobj \<Rightarrow> bool" where
  "truthy PyNone = False"
| "truthy (PyBool b) = b"
| "truthy (PyInt i) = (i \<noteq> 0)"
| "truthy (PyStr s) = (s \<noteq> [])"
| "truthy (PyObj n t) = t"
| "truthy (PyComp a) = True"

definition py_or :: "pyobj \<Rightarrow> pyobj \<Rightarrow> pyobj" where
  "py_or x y = (if truthy x then x else y)"

text \<open>\<open>isinstance(o, Component)\<close>.\<close>

fun isinstance_Component :: "pyobj \<Rightarrow> bool" where
  "isinstance_Component (PyComp a) = True"
| "isinstance_Component _ = False"

text \<open>
  The name of a view (\<open>model\<close> in the source): an int, \<open>None\<close> or a str, the three types
  the rendering rule of a component is registered for (a bool is an int: \<open>False\<close> is
  \<open>VInt 0\<close>). \<open>VInt 0\<close> is the default of every \<open>model\<close> parameter, and \<open>model == 0\<close>
  holds of it alone.
\<close>

datatype view = VInt int | VNone | VStr string

text \<open>
  A url fragment is \<open>None\<close> or a str. \<open>url or self.url\<close> keeps \<open>url\<close> when it is truthy:
  neither \<open>None\<close> nor the empty string.
\<close>

definition url_or :: "string option \<Rightarrow> string option \<Rightarrow> string option" where
  "url_or url other = (if url \<noteq> None \<and> url \<noteq> Some [] then url else other)"

datatype error = AnswerWithoutCall | Exc nat

section \<open>Components, channels and the store\<close>

text \<open>
  The attributes of a \<open>Component\<close>: \<open>o\<close>, \<open>_channel\<close>, \<open>model\<close>, \<open>url\<close>, \<open>_on_answer\<close>.
  A listener is named by a number; what invoking it does is a parameter of \<open>answer\<close>.
\<close>

record component =
  comp_o :: pyobj
  comp_channel :: "chan option"
  comp_model :: view
  comp_url :: "string option"
  comp_on_answer :: "listener option"

text \<open>
  The local variables of \<open>Component.call\<close> that are live while its tasklet is blocked in
  \<open>self._channel.receive()\<close>.
\<close>

record frame =
  frame_self :: addr
  previous_o :: pyobj
  previous_model :: view
  previous_url :: "string option"
  previous_channel :: "chan option"
  previous_on_answer :: "listener option"

text \<open>
  The store. Every address is a \<open>Component\<close> object; the constructor initialises the
  next unused one. \<open>receivers ch\<close> is the frame of the tasklet blocked in \<open>receive\<close> on
  channel \<open>ch\<close>, and \<open>results ch\<close> the value the \<open>call\<close> blocked on \<open>ch\<close> returned once it
  was resumed. \<open>ext\<close> is the state of everything else (renderers, application objects).
\<close>

record 'x state =
  comps :: "addr \<Rightarrow> component"
  next_addr :: addr
  receivers :: "chan \<Rightarrow> frame option"
  results :: "chan \<Rightarrow> pyobj option"
  next_chan :: chan
  ext :: 'x

text \<open>
  What a tasklet running \<open>call\<close> or \<open>answer\<close> does next: it returns a value, raises, or
  blocks on a channel.
\<close>

datatype outcome = Return pyobj | Raise error | Block chan

definition set_comp :: "addr \<Rightarrow> component \<Rightarrow> 'x state \<Rightarrow> 'x state" where
  "set_comp a c st = st\<lparr>comps := (comps st)(a := c)\<rparr>"

text \<open>\<open>Component.__call__\<close>: the inner object.\<close>

definition inner :: "'x state \<Rightarrow> addr \<Rightarrow> pyobj" where
  "inner st a = comp_o (comps st a)"

text \<open>\<open>if isinstance(o, Component): o = o()\<close>, the first statement of the constructor,
  of \<open>becomes\<close> and (after \<open>sys.exc_clear()\<close>) of \<open>call\<close>.\<close>

definition unwrap :: "'x state \<Rightarrow> pyobj \<Rightarrow> pyobj" where
  "unwrap st ob = (case ob of PyComp a \<Rightarrow> inner st a | _ \<Rightarrow> ob)"

text \<open>\<open>Component.__init__(self, o, model=0, url=None)\<close>, run by \<open>Component(o, model, url)\<close>;
  returns the new object.\<close>

definition Component :: "pyobj \<Rightarrow> view \<Rightarrow> string option \<Rightarrow> 'x state \<Rightarrow> addr \<times> 'x state" where
  "Component ob model url st =
     (let ob' = unwrap st ob;
          a = next_addr st
      in (a, (set_comp a \<lparr>comp_o = ob', comp_channel = None, comp_model = model,
                           comp_url = url, comp_on_answer = None\<rparr> st)
               \<lparr>next_addr := Suc a\<rparr>))"

text \<open>\<open>Component.becomes(self, o, model=0, url=None)\<close>; returns \<open>self\<close>.\<close>

definition becomes :: "addr \<Rightarrow> pyobj \<Rightarrow> view \<Rightarrow> string option \<Rightarrow> 'x state \<Rightarrow> addr \<times> 'x state" where
  "becomes self ob model url st =
     (let ob' = unwrap st ob;
          c = comps st self
      in (self, set_comp self (c\<lparr>comp_o := ob', comp_model := model,
                                 comp_url := url_or url (comp_url c)\<rparr>) st))"

text \<open>\<open>Component.on_answer(self, f)\<close>; returns \<open>self\<close>.\<close>

definition on_answer :: "addr \<Rightarrow> listener \<Rightarrow> 'x state \<Rightarrow> addr \<times> 'x state" where
  "on_answer self f st =
     (self, set_comp self ((comps st self)\<lparr>comp_on_answer := Some f\<rparr>) st)"

text \<open>
  \<open>Component.call(self, o, model=0, url=None)\<close> up to \<open>self._channel.receive()\<close>, where
  its tasklet blocks on the channel it has just created.
\<close>

definition call :: "addr \<Rightarrow> pyobj \<Rightarrow> view \<Rightarrow> string option \<Rightarrow> 'x state \<Rightarrow> outcome \<times> 'x state" where
  "call self ob model url st =
     (let ob' = unwrap st ob;
          c = comps st self;
          fr = \<lparr>frame_self = self, previous_o = comp_o c, previous_model = comp_model c,
                previous_url = comp_url c, previous_channel = comp_channel c,
                previous_on_answer = comp_on_answer c\<rparr>;
          st1 = set_comp self (c\<lparr>comp_on_answer := None\<rparr>) st;
          st2 = snd (becomes self ob' model url st1);
          ch = next_chan st2;
          st3 = (set_comp self ((comps st2 self)\<lparr>comp_channel := Some ch\<rparr>) st2)
                  \<lparr>next_chan := Suc ch\<rparr>
      in (Block ch, st3\<lparr>receivers := (receivers st3)(ch := Some fr)\<rparr>))"

text \<open>
  The rest of \<open>call\<close>, from the moment \<open>receive\<close> hands it the value \<open>r\<close>: the saved
  configuration is put back and \<open>r\<close> is returned.
\<close>

definition call_resume :: "frame \<Rightarrow> pyobj \<Rightarrow> 'x state \<Rightarrow> pyobj \<times> 'x state" where
  "call_resume fr r st =
     (let self = frame_self fr;
          st1 = set_comp self ((comps st self)\<lparr>comp_on_answer := previous_on_answer fr\<rparr>) st;
          st2 = set_comp self ((comps st1 self)\<lparr>comp_channel := previous_channel fr\<rparr>) st1;
          st3 = set_comp self ((comps st2 self)\<lparr>comp_url := previous_url fr\<rparr>) st2;
          st4 = snd (becomes self (previous_o fr) (previous_model fr) None st3)
      in (r, st4))"

text \<open>
  Modelled from the spec: \<open>channel.send(r)\<close> of the cooperative task runtime, which the
  component module imports and does not implement. With a tasklet blocked in \<open>receive\<close>
  on the channel, the value is handed over and that tasklet runs on (here: to the return
  of its \<open>call\<close>, whose value \<open>results\<close> keeps), then \<open>send\<close> returns \<open>None\<close>; with no
  receiver the sender blocks.
\<close>

definition send :: "chan \<Rightarrow> pyobj \<Rightarrow> 'x state \<Rightarrow> outcome \<times> 'x state" where
  "send ch r st =
     (case receivers st ch of
        None \<Rightarrow> (Block ch, st)
      | Some fr \<Rightarrow>
          (let (v, st') = call_resume fr r (st\<lparr>receivers := (receivers st)(ch := None)\<rparr>)
           in (Return PyNone, st'\<lparr>results := (results st')(ch := Some v)\<rparr>)))"

text \<open>What a call that returned \<open>Inr v\<close> or raised \<open>Inl e\<close> is as an outcome.\<close>

definition of_result :: "error + pyobj \<Rightarrow> outcome" where
  "of_result x = (case x of Inl e \<Rightarrow> Raise e | Inr v \<Rightarrow> Return v)"

text \<open>
  \<open>Component.answer(self, r=None)\<close>. \<open>run f r\<close> is the listener \<open>f\<close> called with \<open>r\<close>: its
  return value or the exception it raises, and its effect on the store.
\<close>

definition answer ::
  "(listener \<Rightarrow> pyobj \<Rightarrow> 'x state \<Rightarrow> (error + pyobj) \<times> 'x state) \<Rightarrow>
   addr \<Rightarrow> pyobj \<Rightarrow> 'x state \<Rightarrow> outcome \<times> 'x state" where
  "answer run self r st =
     (case comp_on_answer (comps st self) of
        Some f \<Rightarrow> (let (x, st') = run f r st in (of_result x, st'))
      | None \<Rightarrow>
          (case comp_channel (comps st self) of
             None \<Rightarrow> (Raise AnswerWithoutCall, st)
           | Some ch \<Rightarrow> send ch r st))"

text \<open>
  The store before any component is constructed, and the property that no component
  holds a component as its payload.
\<close>

definition blank :: component where
  "blank = \<lparr>comp_o = PyNone, comp_channel = None, comp_model = VInt 0, comp_url = None,
             comp_on_answer = None\<rparr>"

definition init_state :: "'x \<Rightarrow> 'x state" where
  "init_state x = \<lparr>comps = (\<lambda>a. blank), next_addr = 0, receivers = (\<lambda>ch. None),
                    results = (\<lambda>ch. None), next_chan = 0, ext = x\<rparr>"

definition no_nested_payload :: "'x state \<Rightarrow> bool" where
  "no_nested_payload st = (\<forall>a. \<not> isinstance_Component (comp_o (comps st a)))"

section \<open>Calls to collaborators\<close>

text \<open>
  A call to code that is not part of the component module (a listener, \<open>go\<close> of a
  concrete task, a renderer, the security manager, an action) returns a value or raises,
  and changes the state. \<open>and_then\<close> is the statement sequence of the caller: an
  exception of the first call propagates, skipping what follows.
\<close>

definition and_then ::
  "(error + 'a) \<times> 's \<Rightarrow> ('a \<Rightarrow> 's \<Rightarrow> (error + 'b) \<times> 's) \<Rightarrow> (error + 'b) \<times> 's" where
  "and_then m k = (case m of (Inl e, s) \<Rightarrow> (Inl e, s) | (Inr v, s) \<Rightarrow> k v s)"

section \<open>Tasks\<close>



section \<open>Rendering and initialisation from a url\<close>

text \<open>
  The renderer contract and the generic functions of the \<open>presentation\<close> service, which
  is not among the sources: they are parameters. \<open>presentation_render\<close> and
  \<open>presentation_init\<close> are the generic functions applied to a payload.
\<close>

record ('r, 'q, 'x) presentation =
  renderer_new :: "'r \<Rightarrow> 'x state \<Rightarrow> (error + 'r) \<times> 'x state"
  start_rendering :: "'r \<Rightarrow> addr \<Rightarrow> view \<Rightarrow> 'x state \<Rightarrow> (error + pyobj) \<times> 'x state"
  end_rendering :: "'r \<Rightarrow> pyobj \<Rightarrow> 'x state \<Rightarrow> (error + pyobj) \<times> 'x state"
  presentation_render ::
    "pyobj \<Rightarrow> 'r \<Rightarrow> addr \<Rightarrow> view \<Rightarrow> 'x state \<Rightarrow> (error + pyobj) \<times> 'x state"
  presentation_init ::
    "pyobj \<Rightarrow> string list \<Rightarrow> addr \<Rightarrow> string \<Rightarrow> 'q \<Rightarrow> 'x state \<Rightarrow> (error + pyobj) \<times> 'x state"

text \<open>\<open>render(self, renderer, comp, model)\<close>, the rule registered for a \<open>Component\<close>.\<close>

definition render ::
  "('r, 'q, 'x) presentation \<Rightarrow> addr \<Rightarrow> 'r \<Rightarrow> addr \<Rightarrow> view \<Rightarrow> 'x state \<Rightarrow>
   (error + pyobj) \<times> 'x state" where
  "render env self renderer cmp model st =
     and_then (renderer_new env renderer st) (\<lambda>renderer' st1.
     and_then (start_rendering env renderer' self model st1) (\<lambda>_ st2.
       let model' = (if model = VInt 0 then comp_model (comps st2 self) else model)
       in and_then (presentation_render env (inner st2 self) renderer' self model' st2)
            (\<lambda>output st3. end_rendering env renderer' output st3)))"

text \<open>\<open>Component.render(self, renderer, model=0)\<close>: \<open>presentation.render\<close> on the component
  itself, which dispatches to the rule above.\<close>

definition Component_render ::
  "('r, 'q, 'x) presentation \<Rightarrow> addr \<Rightarrow> 'r \<Rightarrow> view \<Rightarrow> 'x state \<Rightarrow> (error + pyobj) \<times> 'x state" where
  "Component_render env self renderer model st = render env self renderer self model st"

text \<open>
  Modelled from the spec: the not-found signal \<open>presentation.NOT_FOUND\<close>, a constant of
  the \<open>presentation\<close> module; an object of its own, other than \<open>None\<close>.
\<close>

definition NOT_FOUND :: pyobj where
  "NOT_FOUND = PyObj 0 True"

text \<open>
  \<open>init_for(self, url, comp, http_method, request)\<close>, the rule registered for a
  \<open>Component\<close>: a call statement with no \<open>return\<close>, so the function returns \<open>None\<close>.
\<close>

definition init_for ::
  "('r, 'q, 'x) presentation \<Rightarrow> addr \<Rightarrow> string list \<Rightarrow> addr \<Rightarrow> string \<Rightarrow> 'q \<Rightarrow> 'x state \<Rightarrow>
   (error + pyobj) \<times> 'x state" where
  "init_for env self url cmp http_method request st =
     and_then (presentation_init env (inner st self) url self http_method request st)
       (\<lambda>_ st'. (Inr PyNone, st'))"

text \<open>\<open>Component.init(self, url, http_method, request)\<close>: \<open>presentation.init\<close> on the
  component itself, which dispatches to the rule above.\<close>

definition Component_init ::
  "('r, 'q, 'x) presentation \<Rightarrow> addr \<Rightarrow> string list \<Rightarrow> string \<Rightarrow> 'q \<Rightarrow> 'x state \<Rightarrow>
   (error + pyobj) \<times> 'x state" where
  "Component_init env self url http_method request st =
     init_for env self url self http_method request st"

section \<open>The security API\<close>

text \<open>
  The request-local state: \<open>local.request.user\<close> and \<open>local.request.security_manager\<close>,
  and in \<open>world\<close> whatever else the manager and the actions read and change. A user
  object carries the \<open>expired\<close> flag; a security manager is named by a number.
\<close>

record user =
  user_id :: nat
  expired :: bool

record 'x request =
  request_user :: "user option"
  request_security_manager :: nat
  world :: 'x

text \<open>
  The methods of the security managers and the functions being protected: they are
  parameters. \<open>has_permission m\<close> and \<open>denies m\<close> are the methods of manager \<open>m\<close>, and
  \<open>apply_function f\<close> is the plain function \<open>f\<close> applied to its positional arguments.
\<close>

record 'x security =
  has_permission ::
    "nat \<Rightarrow> user option \<Rightarrow> pyobj \<Rightarrow> pyobj \<Rightarrow> 'x request \<Rightarrow> (error + pyobj) \<times> 'x request"
  denies :: "nat \<Rightarrow> pyobj \<Rightarrow> 'x request \<Rightarrow> (error + pyobj) \<times> 'x request"
  apply_function :: "nat \<Rightarrow> pyobj list \<Rightarrow> 'x request \<Rightarrow> (error + pyobj) \<times> 'x request"

text \<open>\<open>_get_user()\<close>, \<open>get_user()\<close>, \<open>set_user(user)\<close>, \<open>get_manager()\<close>, \<open>set_manager(manager)\<close>.\<close>

definition private_get_user :: "'x request \<Rightarrow> user option" where
  "private_get_user rq = request_user rq"

definition get_user :: "'x request \<Rightarrow> user option" where
  "get_user rq =
     (case private_get_user rq of
        None \<Rightarrow> None
      | Some u \<Rightarrow> if \<not> expired u then Some u else None)"

definition set_user :: "user option \<Rightarrow> 'x request \<Rightarrow> 'x request" where
  "set_user u rq = rq\<lparr>request_user := u\<rparr>"

definition get_manager :: "'x request \<Rightarrow> nat" where
  "get_manager rq = request_security_manager rq"

definition set_manager :: "nat \<Rightarrow> 'x request \<Rightarrow> 'x request" where
  "set_manager m rq = rq\<lparr>request_security_manager := m\<rparr>"

text \<open>\<open>has_permissions(perm, subject=None)\<close>.\<close>

definition has_permissions ::
  "'x security \<Rightarrow> pyobj \<Rightarrow> pyobj \<Rightarrow> 'x request \<Rightarrow> (error + pyobj) \<times> 'x request" where
  "has_permissions env perm subject rq =
     has_permission env (get_manager rq) (get_user rq) perm subject rq"

text \<open>\<open>check_permissions(perm, subject=None)\<close>. \<open>credential is False\<close> holds of the
  boolean \<open>False\<close> alone.\<close>

definition check_permissions ::
  "'x security \<Rightarrow> pyobj \<Rightarrow> pyobj \<Rightarrow> 'x request \<Rightarrow> (error + pyobj) \<times> 'x request" where
  "check_permissions env perm subject rq =
     and_then (has_permissions env perm subject rq) (\<lambda>credential rq1.
       if \<not> truthy credential then
         (let credential' = (if credential = PyBool False then PyStr [] else credential)
          in and_then (denies env (get_manager rq1) credential' rq1)
               (\<lambda>_ rq2. (Inr credential', rq2)))
       else (Inr credential, rq1))"

text \<open>
  \<open>call_with_permissions(self, __action, __perm, __subject, *args, **kw)\<close>; \<open>action\<close> is
  the callable \<open>__action\<close>, \<open>args\<close> its arguments.
\<close>

definition call_with_permissions ::
  "'x security \<Rightarrow> pyobj \<Rightarrow> (pyobj list \<Rightarrow> 'x request \<Rightarrow> (error + pyobj) \<times> 'x request) \<Rightarrow>
   pyobj \<Rightarrow> pyobj \<Rightarrow> pyobj list \<Rightarrow> 'x request \<Rightarrow> (error + pyobj) \<times> 'x request" where
  "call_with_permissions env self action perm subject args rq =
     and_then (check_permissions env perm (py_or subject self) rq) (\<lambda>_ rq1.
       if truthy self then action (self # args) rq1 else action args rq1)"

text \<open>
  Modelled from the spec: \<open>partial.Partial\<close>, the helper class of the framework that
  \<open>wrapper\<close> builds its result with, is not among the sources. A callable is a plain
  function or \<open>Partial(call_with_permissions, self, action, perm, subject)\<close>, which called
  with \<open>args\<close> calls \<open>call_with_permissions(self, action, perm, subject, *args)\<close>.
\<close>

datatype callable =
    Function nat
  | Partial_call_with_permissions pyobj callable pyobj pyobj

fun invoke ::
  "'x security \<Rightarrow> callable \<Rightarrow> pyobj list \<Rightarrow> 'x request \<Rightarrow> (error + pyobj) \<times> 'x request" where
  "invoke env (Function f) = apply_function env f"
| "invoke env (Partial_call_with_permissions self action perm subject) =
     call_with_permissions env self (invoke env action) perm subject"

text \<open>\<open>wrapper(action, perm, subject)\<close>.\<close>

definition wrapper :: "callable \<Rightarrow> pyobj \<Rightarrow> pyobj \<Rightarrow> callable" where
  "wrapper action perm subject =
     (if perm \<noteq> PyNone then Partial_call_with_permissions PyNone action perm subject
      else action)"

section \<open>Scenarios\<close>

text \<open>
  Concrete collaborators and stores, for running the operations above. Each
  collaborator records its invocations in the part of the state that is its own.
\<close>

text \<open>A component wrapping the object \<open>PyObj 1 True\<close>, in an otherwise empty store: it is
  the component at address 0.\<close>

definition scenario_fresh :: "'x \<Rightarrow> 'x state" where
  "scenario_fresh x = snd (Component (PyObj 1 True) (VInt 0) (Some ''app'') (init_state x))"

text \<open>A listener that appends its name to the log and returns it as an int.\<close>

definition logging_listener ::
  "listener \<Rightarrow> pyobj \<Rightarrow> nat list state \<Rightarrow> (error + pyobj) \<times> nat list state" where
  "logging_listener f r st = (Inr (PyInt (int f)), st\<lparr>ext := ext st @ [f]\<rparr>)"



text \<open>
  A presentation service that records the calls it receives. A child renderer is the
  successor of its parent; a payload renders to the name of the view it is asked for;
  \<open>end_rendering\<close> puts the output in brackets; no payload consumes any url.
\<close>

datatype render_event =
    New nat
  | Start_rendering nat addr view
  | Render pyobj nat addr view
  | End_rendering nat pyobj

definition recording_presentation :: "(nat, unit, render_event list) presentation" where
  "recording_presentation =
     \<lparr>renderer_new = (\<lambda>r st. (Inr (Suc r), st\<lparr>ext := ext st @ [New r]\<rparr>)),
      start_rendering = (\<lambda>r c v st. (Inr PyNone, st\<lparr>ext := ext st @ [Start_rendering r c v]\<rparr>)),
      end_rendering = (\<lambda>r out st.
         (Inr (case out of PyStr s \<Rightarrow> PyStr (''['' @ s @ '']'') | _ \<Rightarrow> out),
          st\<lparr>ext := ext st @ [End_rendering r out]\<rparr>)),
      presentation_render = (\<lambda>ob r c v st.
         (Inr (PyStr (case v of VStr s \<Rightarrow> s | _ \<Rightarrow> ''default'')),
          st\<lparr>ext := ext st @ [Render ob r c v]\<rparr>)),
      presentation_init = (\<lambda>ob url c m rq st. (Inr NOT_FOUND, st))\<rparr>"

text \<open>
  A security manager that records the calls it receives: \<open>has_permission\<close> answers by
  the given policy, \<open>denies\<close> raises, and every plain function returns \<open>None\<close>.
\<close>

datatype security_event =
    Has_permission "user option" pyobj pyobj
  | Denies pyobj
  | Applied nat "pyobj list"

definition recording_security ::
  "(user option \<Rightarrow> pyobj \<Rightarrow> pyobj \<Rightarrow> pyobj) \<Rightarrow> (security_event list) security" where
  "recording_security policy =
     \<lparr>has_permission = (\<lambda>m u perm subject rq.
         (Inr (policy u perm subject), rq\<lparr>world := world rq @ [Has_permission u perm subject]\<rparr>)),
      denies = (\<lambda>m detail rq. (Inl (Exc 403), rq\<lparr>world := world rq @ [Denies detail]\<rparr>)),
      apply_function = (\<lambda>f args rq. (Inr PyNone, rq\<lparr>world := world rq @ [Applied f args]\<rparr>))\<rparr>"

text \<open>A request with the given current user, manager 0 and nothing recorded yet.\<close>

definition scenario_request :: "user option \<Rightarrow> (security_event list) request" where
  "scenario_request u = \<lparr>request_user = u, request_security_manager = 0, world = []\<rparr>"

section \<open>Facts about the store\<close>

lemma unwrap_plain: "\<not> isinstance_Component ob \<Longrightarrow> unwrap st ob = ob"
  by (cases ob) (simp_all add: unwrap_def)

lemma unwrap_not_Component:
  "no_nested_payload st \<Longrightarrow> \<not> isinstance_Component (unwrap st ob)"
  by (cases ob) (simp_all add: unwrap_def inner_def no_nested_payload_def)

lemma unwrap_cong:
  "(\<And>a. comp_o (comps st a) = comp_o (comps st' a)) \<Longrightarrow> unwrap st ob = unwrap st' ob"
  by (cases ob) (simp_all add: unwrap_def inner_def)

lemma comps_set_comp: "comps (set_comp a c st) = (comps st)(a := c)"
  by (simp add: set_comp_def)

lemma set_comp_fields:
  "next_chan (set_comp a c st) = next_chan st"
  "next_addr (set_comp a c st) = next_addr st"
  "receivers (set_comp a c st) = receivers st"
  "results (set_comp a c st) = results st"
  "ext (set_comp a c st) = ext st"
  by (simp_all add: set_comp_def)

lemma unwrap_set_comp:
  "comp_o c = comp_o (comps st a) \<Longrightarrow> unwrap (set_comp a c st) ob = unwrap st ob"
  by (rule unwrap_cong) (simp add: comps_set_comp)

lemma url_or_None: "url_or None u = u"
  by (simp add: url_or_def)

lemma comps_Component:
  "comps (snd (Component ob model url st)) =
     (comps st)(next_addr st := \<lparr>comp_o = unwrap st ob, comp_channel = None, comp_model = model,
                                  comp_url = url, comp_on_answer = None\<rparr>)"
  by (simp add: Component_def Let_def comps_set_comp)

lemma fst_Component: "fst (Component ob model url st) = next_addr st"
  by (simp add: Component_def Let_def)

lemma comps_becomes:
  "comps (snd (becomes self ob model url st)) =
     (comps st)(self := (comps st self)\<lparr>comp_o := unwrap st ob, comp_model := model,
                                         comp_url := url_or url (comp_url (comps st self))\<rparr>)"
  by (simp add: becomes_def Let_def comps_set_comp)

lemma comps_on_answer:
  "comps (snd (on_answer self f st)) =
     (comps st)(self := (comps st self)\<lparr>comp_on_answer := Some f\<rparr>)"
  by (simp add: on_answer_def comps_set_comp)

lemma on_answer_fields:
  "next_chan (snd (on_answer self f st)) = next_chan st"
  "receivers (snd (on_answer self f st)) = receivers st"
  by (simp_all add: on_answer_def set_comp_fields)

lemma unwrap_on_answer: "unwrap (snd (on_answer self f st)) ob = unwrap st ob"
  by (rule unwrap_cong) (simp add: comps_on_answer)

lemma comps_call:
  "comps (snd (call self ob model url st)) =
     (comps st)(self := \<lparr>comp_o = unwrap st (unwrap st ob),
                          comp_channel = Some (next_chan st), comp_model = model,
                          comp_url = url_or url (comp_url (comps st self)),
                          comp_on_answer = None\<rparr>)"
  by (cases "comps st self")
     (simp add: call_def Let_def comps_set_comp becomes_def unwrap_set_comp set_comp_fields)

lemma fst_call: "fst (call self ob model url st) = Block (next_chan st)"
  by (simp add: call_def Let_def becomes_def set_comp_def)

lemma receivers_call:
  "receivers (snd (call self ob model url st)) =
     (receivers st)(next_chan st :=
        Some \<lparr>frame_self = self, previous_o = comp_o (comps st self),
              previous_model = comp_model (comps st self),
              previous_url = comp_url (comps st self),
              previous_channel = comp_channel (comps st self),
              previous_on_answer = comp_on_answer (comps st self)\<rparr>)"
  by (simp add: call_def Let_def becomes_def set_comp_def)

lemma comps_call_resume:
  "comps (snd (call_resume fr r st)) =
     (comps st)(frame_self fr := \<lparr>comp_o = unwrap st (previous_o fr),
                                  comp_channel = previous_channel fr,
                                  comp_model = previous_model fr,
                                  comp_url = previous_url fr,
                                  comp_on_answer = previous_on_answer fr\<rparr>)"
  by (cases "comps st (frame_self fr)")
     (simp add: call_resume_def Let_def comps_becomes comps_set_comp url_or_None
        unwrap_set_comp)

lemma fst_call_resume: "fst (call_resume fr r st) = r"
  by (simp add: call_resume_def Let_def)

lemma send_no_receiver: "receivers st ch = None \<Longrightarrow> send ch r st = (Block ch, st)"
  by (simp add: send_def)

lemma send_receiver:
  assumes "receivers st ch = Some fr"
  shows "fst (send ch r st) = Return PyNone"
    and "comps (snd (send ch r st)) =
           (comps st)(frame_self fr := \<lparr>comp_o = unwrap st (previous_o fr),
                                  comp_channel = previous_channel fr,
                                  comp_model = previous_model fr,
                                  comp_url = previous_url fr,
                                  comp_on_answer = previous_on_answer fr\<rparr>)"
    and "results (snd (send ch r st)) ch = Some r"
    and "receivers (snd (send ch r st)) ch = None"
proof -
  let ?st0 = "st\<lparr>receivers := (receivers st)(ch := None)\<rparr>"
  have s: "send ch r st =
     (Return PyNone, (snd (call_resume fr r ?st0))
        \<lparr>results := (results (snd (call_resume fr r ?st0)))(ch := Some (fst (call_resume fr r ?st0)))\<rparr>)"
    using assms by (simp add: send_def split_def Let_def)
  have u: "unwrap ?st0 (previous_o fr) = unwrap st (previous_o fr)"
    by (rule unwrap_cong) simp
  show "fst (send ch r st) = Return PyNone" by (simp add: s)
  show "comps (snd (send ch r st)) =
           (comps st)(frame_self fr := \<lparr>comp_o = unwrap st (previous_o fr),
                                  comp_channel = previous_channel fr,
                                  comp_model = previous_model fr,
                                  comp_url = previous_url fr,
                                  comp_on_answer = previous_on_answer fr\<rparr>)"
    by (simp add: s comps_call_resume u)
  show "results (snd (send ch r st)) ch = Some r"
    by (simp add: s fst_call_resume)
  show "receivers (snd (send ch r st)) ch = None"
    by (simp add: s call_resume_def Let_def becomes_def set_comp_def)
qed

lemma answer_listener:
  "comp_on_answer (comps st self) = Some f \<Longrightarrow>
   answer run self r st = (of_result (fst (run f r st)), snd (run f r st))"
  by (simp add: answer_def split_def Let_def)

lemma answer_without_call:
  "comp_on_answer (comps st self) = None \<Longrightarrow> comp_channel (comps st self) = None \<Longrightarrow>
   answer run self r st = (Raise AnswerWithoutCall, st)"
  by (simp add: answer_def)

lemma answer_send:
  "comp_on_answer (comps st self) = None \<Longrightarrow> comp_channel (comps st self) = Some ch \<Longrightarrow>
   answer run self r st = send ch r st"
  by (simp add: answer_def)

lemma no_nested_init_state: "no_nested_payload (init_state x)"
  by (simp add: no_nested_payload_def init_state_def blank_def)

lemma no_nested_Component:
  "no_nested_payload st \<Longrightarrow> no_nested_payload (snd (Component ob model url st))"
  unfolding no_nested_payload_def comps_Component
  using unwrap_not_Component [unfolded no_nested_payload_def, of st ob] by simp

lemma no_nested_becomes:
  "no_nested_payload st \<Longrightarrow> no_nested_payload (snd (becomes self ob model url st))"
  unfolding no_nested_payload_def comps_becomes
  using unwrap_not_Component [unfolded no_nested_payload_def, of st ob] by simp

lemma no_nested_on_answer:
  "no_nested_payload st \<Longrightarrow> no_nested_payload (snd (on_answer self f st))"
  unfolding no_nested_payload_def comps_on_answer by simp

lemma no_nested_call:
  "no_nested_payload st \<Longrightarrow> no_nested_payload (snd (call self ob model url st))"
  unfolding no_nested_payload_def comps_call
  using unwrap_not_Component [unfolded no_nested_payload_def, of st "unwrap st ob"] by simp

lemma no_nested_call_resume:
  "no_nested_payload st \<Longrightarrow> no_nested_payload (snd (call_resume fr r st))"
  unfolding no_nested_payload_def comps_call_resume
  using unwrap_not_Component [unfolded no_nested_payload_def, of st "previous_o fr"] by simp

lemma no_nested_send:
  assumes "no_nested_payload st"
  shows "no_nested_payload (snd (send ch r st))"
proof (cases "receivers st ch")
  case None
  then show ?thesis using assms by (simp add: send_no_receiver)
next
  case (Some fr)
  show ?thesis
    unfolding no_nested_payload_def send_receiver(2) [OF Some]
    using assms unwrap_not_Component [OF assms, of "previous_o fr"]
    by (simp add: no_nested_payload_def)
qed

lemma no_nested_answer:
  assumes "no_nested_payload st"
      and "\<And>f v s. no_nested_payload s \<Longrightarrow> no_nested_payload (snd (run f v s))"
  shows "no_nested_payload (snd (answer run self r st))"
proof (cases "comp_on_answer (comps st self)")
  case (Some f)
  then show ?thesis using assms by (simp add: answer_listener)
next
  case None
  show ?thesis
  proof (cases "comp_channel (comps st self)")
    case None
    with \<open>comp_on_answer (comps st self) = None\<close> show ?thesis
      using assms(1) by (simp add: answer_without_call)
  next
    case (Some ch)
    with \<open>comp_on_answer (comps st self) = None\<close> show ?thesis
      using assms(1) by (simp add: answer_send no_nested_send)
  qed
qed

lemma scenario_fresh_comps:
  "comps (scenario_fresh x) =
     (\<lambda>a. blank)(0 := \<lparr>comp_o = PyObj 1 True, comp_channel = None, comp_model = VInt 0,
                        comp_url = Some ''app'', comp_on_answer = None\<rparr>)"
  by (simp add: scenario_fresh_def comps_Component init_state_def unwrap_def)

lemma scenario_fresh_fields:
  "next_chan (scenario_fresh x) = 0"
  "receivers (scenario_fresh x) = (\<lambda>ch. None)"
  "results (scenario_fresh x) = (\<lambda>ch. None)"
  "ext (scenario_fresh x) = x"
  by (simp_all add: scenario_fresh_def Component_def Let_def set_comp_def init_state_def)

section \<open>The component model\<close>

text \<open>
  C1 (identity preservation across call). Let \<open>c\<close> be a component whose payload is not
  itself a component, as the constructor, \<open>becomes\<close> and \<open>call\<close> leave every component.
  \<open>c.call(p2, m2, u2)\<close> blocks its tasklet on a fresh channel. Whatever happens to the
  store in between (\<open>st2\<close> is any store in which that tasklet is still the receiver of the
  channel), delivering \<open>v\<close> on the channel makes the call return exactly \<open>v\<close>, and the
  attributes of \<open>c\<close> (payload, view, url, channel, listener) are again those it had before
  the call. \<open>c.answer(v)\<close> is that delivery when \<open>c\<close> has no listener and the channel of
  the call is its current one.
\<close>

theorem call_identity:
  assumes wf: "\<not> isinstance_Component (comp_o (comps st c))"
      and pending:
        "receivers st2 (next_chan st) = receivers (snd (call c p2 m2 u2 st)) (next_chan st)"
  shows "fst (call c p2 m2 u2 st) = Block (next_chan st) \<and>
         fst (send (next_chan st) v st2) = Return PyNone \<and>
         results (snd (send (next_chan st) v st2)) (next_chan st) = Some v \<and>
         comps (snd (send (next_chan st) v st2)) c = comps st c \<and>
         (comp_on_answer (comps st2 c) = None \<and> comp_channel (comps st2 c) = Some (next_chan st)
            \<longrightarrow> answer run c v st2 = send (next_chan st) v st2)"
proof -
  let ?fr = "\<lparr>frame_self = c, previous_o = comp_o (comps st c),
              previous_model = comp_model (comps st c),
              previous_url = comp_url (comps st c),
              previous_channel = comp_channel (comps st c),
              previous_on_answer = comp_on_answer (comps st c)\<rparr>"
  have r: "receivers st2 (next_chan st) = Some ?fr"
    using pending by (simp add: receivers_call)
  have u: "unwrap st2 (comp_o (comps st c)) = comp_o (comps st c)"
    using wf by (rule unwrap_plain)
  show ?thesis
    using send_receiver [OF r, of v] by (simp add: fst_call u answer_send)
qed

text \<open>
  Scenario A: the component wrapping object 1 calls object 2 with view 1; the callee
  replaces itself by object 3 under another url; then \<open>answer("ok")\<close>.
\<close>

theorem call_identity_witness:
  "\<not> isinstance_Component (comp_o (comps (scenario_fresh ([]::nat list)) 0)) \<and>
   comp_o (comps (snd (call 0 (PyObj 2 True) (VInt 1) None (scenario_fresh ([]::nat list)))) 0) = PyObj 2 True \<and>
   comp_model (comps (snd (call 0 (PyObj 2 True) (VInt 1) None (scenario_fresh ([]::nat list)))) 0) = VInt 1 \<and>
   fst (answer logging_listener 0 (PyStr ''ok'')
         (snd (becomes 0 (PyObj 3 True) (VStr ''edit'') (Some ''other'')
            (snd (call 0 (PyObj 2 True) (VInt 1) None (scenario_fresh ([]::nat list))))))) = Return PyNone \<and>
   results (snd (answer logging_listener 0 (PyStr ''ok'')
         (snd (becomes 0 (PyObj 3 True) (VStr ''edit'') (Some ''other'')
            (snd (call 0 (PyObj 2 True) (VInt 1) None (scenario_fresh ([]::nat list)))))))) 0
     = Some (PyStr ''ok'') \<and>
   comps (snd (answer logging_listener 0 (PyStr ''ok'')
         (snd (becomes 0 (PyObj 3 True) (VStr ''edit'') (Some ''other'')
            (snd (call 0 (PyObj 2 True) (VInt 1) None (scenario_fresh ([]::nat list)))))))) 0
     = comps (scenario_fresh ([]::nat list)) 0"
proof -
  let ?st = "scenario_fresh ([] :: nat list)"
  let ?st1 = "snd (call 0 (PyObj 2 True) (VInt 1) None ?st)"
  let ?st2 = "snd (becomes 0 (PyObj 3 True) (VStr ''edit'') (Some ''other'') ?st1)"
  have wf: "\<not> isinstance_Component (comp_o (comps ?st 0))"
    by (simp add: scenario_fresh_comps)
  have pending: "receivers ?st2 (next_chan ?st) = receivers ?st1 (next_chan ?st)"
    by (simp add: becomes_def Let_def set_comp_fields)
  have routed: "comp_on_answer (comps ?st2 0) = None \<and>
      comp_channel (comps ?st2 0) = Some (next_chan ?st)"
    by (simp add: comps_becomes comps_call)
  have called: "comp_o (comps ?st1 0) = PyObj 2 True \<and> comp_model (comps ?st1 0) = VInt 1"
    by (simp add: comps_call unwrap_def)
  from call_identity [OF wf pending, of "PyStr ''ok''" logging_listener] routed wf called
  show ?thesis
    by (simp add: scenario_fresh_fields)
qed

text \<open>
  C2 (answer routing). \<open>c.answer(v)\<close> with a listener \<open>f\<close> installed is \<open>f(v)\<close>: its result
  and its effect, and nothing else. With no listener and no channel it raises
  \<open>AnswerWithoutCall\<close> and changes nothing. With no listener and a channel it sends \<open>v\<close>
  on the channel; the tasklet blocked there is resumed, its \<open>call\<close> returns \<open>v\<close>, and
  nothing is left waiting on the channel. A freshly constructed component is in the
  second case.
\<close>

theorem answer_routing:
  "(comp_on_answer (comps st c) = Some f \<longrightarrow>
      answer run c v st = (of_result (fst (run f v st)), snd (run f v st))) \<and>
   (comp_on_answer (comps st c) = None \<and> comp_channel (comps st c) = None \<longrightarrow>
      answer run c v st = (Raise AnswerWithoutCall, st)) \<and>
   (comp_on_answer (comps st c) = None \<and> comp_channel (comps st c) = Some ch \<longrightarrow>
      answer run c v st = send ch v st \<and>
      (receivers st ch = Some fr \<longrightarrow>
         fst (answer run c v st) = Return PyNone \<and>
         results (snd (answer run c v st)) ch = Some v \<and>
         receivers (snd (answer run c v st)) ch = None)) \<and>
   answer run (fst (Component p m u st)) v (snd (Component p m u st)) =
     (Raise AnswerWithoutCall, snd (Component p m u st))"
proof -
  have fresh: "answer run (fst (Component p m u st)) v (snd (Component p m u st)) =
     (Raise AnswerWithoutCall, snd (Component p m u st))"
    by (rule answer_without_call) (simp_all add: comps_Component fst_Component)
  show ?thesis
    using fresh send_receiver [of st ch fr v]
    by (simp add: answer_listener answer_without_call answer_send)
qed

theorem answer_routing_witness:
  "comp_on_answer (comps (snd (on_answer 0 5 (scenario_fresh ([]::nat list)))) 0) = Some 5 \<and>
   answer logging_listener 0 (PyStr ''ok'') (snd (on_answer 0 5 (scenario_fresh ([]::nat list)))) =
     (Return (PyInt 5), (snd (on_answer 0 5 (scenario_fresh ([]::nat list))))\<lparr>ext := [5]\<rparr>) \<and>
   comp_on_answer (comps (scenario_fresh ([]::nat list)) 0) = None \<and>
   comp_channel (comps (scenario_fresh ([]::nat list)) 0) = None \<and>
   answer logging_listener 0 (PyStr ''ok'') (scenario_fresh ([]::nat list)) =
     (Raise AnswerWithoutCall, scenario_fresh ([]::nat list)) \<and>
   comp_on_answer (comps (snd (call 0 (PyObj 2 True) (VInt 1) None (scenario_fresh ([]::nat list)))) 0) = None \<and>
   comp_channel (comps (snd (call 0 (PyObj 2 True) (VInt 1) None (scenario_fresh ([]::nat list)))) 0) = Some 0 \<and>
   fst (answer logging_listener 0 (PyStr ''ok'')
          (snd (call 0 (PyObj 2 True) (VInt 1) None (scenario_fresh ([]::nat list))))) = Return PyNone \<and>
   results (snd (answer logging_listener 0 (PyStr ''ok'')
          (snd (call 0 (PyObj 2 True) (VInt 1) None (scenario_fresh ([]::nat list)))))) 0 = Some (PyStr ''ok'')"
proof -
  let ?st = "scenario_fresh ([] :: nat list)"
  let ?stl = "snd (on_answer 0 5 ?st)"
  let ?stc = "snd (call 0 (PyObj 2 True) (VInt 1) None ?st)"
  let ?fr = "\<lparr>frame_self = 0, previous_o = PyObj 1 True, previous_model = VInt 0,
              previous_url = Some ''app'', previous_channel = None,
              previous_on_answer = None\<rparr>"
  have l: "comp_on_answer (comps ?stl 0) = Some 5"
    by (simp add: comps_on_answer)
  have n: "comp_on_answer (comps ?st 0) = None \<and> comp_channel (comps ?st 0) = None"
    by (simp add: scenario_fresh_comps)
  have c: "comp_on_answer (comps ?stc 0) = None \<and> comp_channel (comps ?stc 0) = Some 0"
    by (simp add: comps_call scenario_fresh_fields)
  have r: "receivers ?stc 0 = Some ?fr"
    by (simp add: receivers_call scenario_fresh_fields scenario_fresh_comps)
  have e: "ext ?stl = []"
    by (simp add: on_answer_def set_comp_fields scenario_fresh_fields)
  from answer_routing [of ?stl 0 5 logging_listener "PyStr ''ok''"] l
  have 1: "answer logging_listener 0 (PyStr ''ok'') ?stl = (Return (PyInt 5), ?stl\<lparr>ext := [5]\<rparr>)"
    by (simp add: logging_listener_def of_result_def e)
  from answer_routing [of ?st 0 _ logging_listener "PyStr ''ok''"] n
  have 2: "answer logging_listener 0 (PyStr ''ok'') ?st = (Raise AnswerWithoutCall, ?st)"
    by simp
  from answer_routing [of ?stc 0 _ logging_listener "PyStr ''ok''" 0 ?fr] c r
  have 3: "fst (answer logging_listener 0 (PyStr ''ok'') ?stc) = Return PyNone \<and>
           results (snd (answer logging_listener 0 (PyStr ''ok'') ?stc)) 0 = Some (PyStr ''ok'')"
    by blast
  show ?thesis using l n c 1 2 3 by simp
qed

text \<open>
  C3 (listener precedence), as the claim states it, fails. A listener installed before
  \<open>call\<close> is not in place while the call is pending: with listener 5 installed on the
  component of the scenario and object 2 called, the caller is blocked on channel 0, the
  component has no listener, and \<open>answer("ok")\<close> returns \<open>None\<close> after handing \<open>"ok"\<close> to
  the call blocked on channel 0; the log of listener invocations stays empty, where
  \<open>f("ok")\<close> would have returned 5 and logged itself.
\<close>

theorem listener_before_call_counterexample:
  "fst (call 0 (PyObj 2 True) (VInt 1) None (snd (on_answer 0 5 (scenario_fresh ([]::nat list)))))
     = Block 0 \<and>
   comp_on_answer (comps (snd (call 0 (PyObj 2 True) (VInt 1) None
       (snd (on_answer 0 5 (scenario_fresh ([]::nat list)))))) 0) = None \<and>
   fst (answer logging_listener 0 (PyStr ''ok'')
         (snd (call 0 (PyObj 2 True) (VInt 1) None (snd (on_answer 0 5 (scenario_fresh [])))))) =
     Return PyNone \<and>
   fst (logging_listener 5 (PyStr ''ok'')
         (snd (call 0 (PyObj 2 True) (VInt 1) None (snd (on_answer 0 5 (scenario_fresh []))))))
     = Inr (PyInt 5) \<and>
   ext (snd (answer logging_listener 0 (PyStr ''ok'')
         (snd (call 0 (PyObj 2 True) (VInt 1) None (snd (on_answer 0 5 (scenario_fresh []))))))) =
     [] \<and>
   ext (snd (logging_listener 5 (PyStr ''ok'')
         (snd (call 0 (PyObj 2 True) (VInt 1) None (snd (on_answer 0 5 (scenario_fresh []))))))) =
     [5] \<and>
   results (snd (answer logging_listener 0 (PyStr ''ok'')
         (snd (call 0 (PyObj 2 True) (VInt 1) None (snd (on_answer 0 5 (scenario_fresh []))))))) 0 =
     Some (PyStr ''ok'')"
proof -
  let ?st = "snd (on_answer 0 5 (scenario_fresh ([]::nat list)))"
  let ?stc = "snd (call 0 (PyObj 2 True) (VInt 1) None ?st)"
  let ?fr = "\<lparr>frame_self = 0, previous_o = PyObj 1 True, previous_model = VInt 0,
              previous_url = Some ''app'', previous_channel = None,
              previous_on_answer = Some 5\<rparr>"
  have nc: "next_chan ?st = 0"
    by (simp add: on_answer_fields scenario_fresh_fields)
  have blocked: "fst (call 0 (PyObj 2 True) (VInt 1) None ?st) = Block 0"
    by (simp add: fst_call nc)
  have c: "comp_on_answer (comps ?stc 0) = None" "comp_channel (comps ?stc 0) = Some 0"
    by (simp_all add: comps_call nc)
  have r: "receivers ?stc 0 = Some ?fr"
    by (simp add: receivers_call nc comps_on_answer scenario_fresh_comps)
  have a: "answer logging_listener 0 (PyStr ''ok'') ?stc = send 0 (PyStr ''ok'') ?stc"
    using c by (rule answer_send)
  have e0: "ext ?stc = []"
    by (simp add: call_def Let_def becomes_def on_answer_def set_comp_fields
        scenario_fresh_fields)
  have e: "ext (snd (send 0 (PyStr ''ok'') ?stc)) = ext ?stc"
    using r by (simp add: send_def call_resume_def Let_def becomes_def set_comp_fields)
  show ?thesis
    using blocked c(1) send_receiver(1,3) [OF r, of "PyStr ''ok''"]
    by (simp add: a e e0 logging_listener_def)
qed

text \<open>
  C3, amended. \<open>call\<close> sets the listener of the component aside for the duration of the
  call: with \<open>f\<close> installed before \<open>c.call(p)\<close>, the caller is blocked on the fresh channel,
  \<open>c\<close> has no listener while the call is pending, \<open>c.answer(v)\<close> is the delivery of \<open>v\<close> on
  that channel, and once the call has returned \<open>f\<close> is the listener of \<open>c\<close> again. A
  listener that is in place when \<open>answer\<close> is invoked (installed on \<open>c\<close> in any store
  \<open>st'\<close>, for instance while a call is pending) does take precedence: \<open>c.answer(v)\<close> is
  \<open>f(v)\<close>, and no channel is used.
\<close>

theorem listener_precedence_amended:
  "fst (call c p m u (snd (on_answer c f st))) = Block (next_chan st) \<and>
   comp_on_answer (comps (snd (call c p m u (snd (on_answer c f st)))) c) = None \<and>
   answer run c v (snd (call c p m u (snd (on_answer c f st)))) =
     send (next_chan st) v (snd (call c p m u (snd (on_answer c f st)))) \<and>
   results (snd (answer run c v (snd (call c p m u (snd (on_answer c f st)))))) (next_chan st) =
     Some v \<and>
   comp_on_answer (comps (snd (answer run c v (snd (call c p m u (snd (on_answer c f st)))))) c) =
     Some f \<and>
   answer run c v (snd (on_answer c f st')) =
     (of_result (fst (run f v (snd (on_answer c f st')))),
      snd (run f v (snd (on_answer c f st'))))"
proof -
  let ?st = "snd (on_answer c f st)"
  let ?stc = "snd (call c p m u ?st)"
  let ?fr = "\<lparr>frame_self = c, previous_o = comp_o (comps ?st c),
              previous_model = comp_model (comps ?st c),
              previous_url = comp_url (comps ?st c),
              previous_channel = comp_channel (comps ?st c),
              previous_on_answer = comp_on_answer (comps ?st c)\<rparr>"
  have nc: "next_chan ?st = next_chan st"
    by (simp add: on_answer_fields)
  have c: "comp_on_answer (comps ?stc c) = None" "comp_channel (comps ?stc c) = Some (next_chan st)"
    by (simp_all add: comps_call nc)
  have r: "receivers ?stc (next_chan st) = Some ?fr"
    by (simp add: receivers_call nc)
  have a: "answer run c v ?stc = send (next_chan st) v ?stc"
    using c by (rule answer_send)
  have restored: "comp_on_answer (comps (snd (send (next_chan st) v ?stc)) c) = Some f"
    by (simp add: send_receiver(2) [OF r] comps_on_answer)
  have l: "answer run c v (snd (on_answer c f st')) =
     (of_result (fst (run f v (snd (on_answer c f st')))),
      snd (run f v (snd (on_answer c f st'))))"
    by (rule answer_listener) (simp add: comps_on_answer)
  show ?thesis
    using send_receiver(3) [OF r, of v] restored l
    by (simp add: fst_call nc c(1) a)
qed

text \<open>
  C6 (no nested payloads). The store before any construction satisfies the invariant,
  and the constructor, \<open>becomes\<close>, both halves of \<open>call\<close>, \<open>send\<close>, \<open>on_answer\<close> and
  \<open>answer\<close> (with listeners that preserve it) preserve it. What each of the three stores
  as the payload is the argument unwrapped: the payload of the component it refers to,
  or the argument itself.
\<close>

theorem no_nested_payload_invariant:
  "no_nested_payload (init_state x) \<and>
   (no_nested_payload st \<longrightarrow>
      no_nested_payload (snd (Component ob model url st)) \<and>
      no_nested_payload (snd (becomes self ob model url st)) \<and>
      no_nested_payload (snd (call self ob model url st)) \<and>
      no_nested_payload (snd (call_resume fr r st)) \<and>
      no_nested_payload (snd (send ch r st)) \<and>
      no_nested_payload (snd (on_answer self f st)) \<and>
      ((\<forall>g v s. no_nested_payload s \<longrightarrow> no_nested_payload (snd (run g v s))) \<longrightarrow>
         no_nested_payload (snd (answer run self r st))) \<and>
      comp_o (comps (snd (Component ob model url st)) (fst (Component ob model url st))) =
        unwrap st ob \<and>
      comp_o (comps (snd (becomes self ob model url st)) self) = unwrap st ob \<and>
      comp_o (comps (snd (call self ob model url st)) self) = unwrap st ob \<and>
      unwrap st (PyComp a) = comp_o (comps st a) \<and>
      \<not> isinstance_Component (unwrap st ob))"
proof -
  have "unwrap st (unwrap st ob) = unwrap st ob" if "no_nested_payload st"
    using that by (simp add: unwrap_plain unwrap_not_Component)
  then show ?thesis
    using no_nested_answer [of st run self r]
    by (simp add: no_nested_init_state no_nested_Component no_nested_becomes no_nested_call
        no_nested_call_resume no_nested_send no_nested_on_answer comps_Component
        fst_Component comps_becomes comps_call unwrap_not_Component)
       (simp add: unwrap_def inner_def)
qed

text \<open>Wrapping, replacing by and calling a component: its payload is what is stored.\<close>

theorem no_nested_payload_invariant_witness:
  "no_nested_payload (init_state ()) \<and>
   no_nested_payload (snd (Component (PyComp 0) (VInt 0) None (scenario_fresh ()))) \<and>
   comp_o (comps (snd (Component (PyComp 0) (VInt 0) None (scenario_fresh ()))) 1) = PyObj 1 True \<and>
   no_nested_payload (snd (becomes 0 (PyComp 0) VNone None (scenario_fresh ()))) \<and>
   no_nested_payload (snd (call 0 (PyComp 0) VNone None (scenario_fresh ()))) \<and>
   comp_o (comps (snd (call 0 (PyComp 0) VNone None (scenario_fresh ()))) 0) = PyObj 1 True"
proof -
  have s: "scenario_fresh () = snd (Component (PyObj 1 True) (VInt 0) (Some ''app'') (init_state ()))"
    by (simp add: scenario_fresh_def)
  have i: "no_nested_payload (init_state ())"
    by (rule no_nested_payload_invariant [of "()" "init_state ()", THEN conjunct1])
  have f: "no_nested_payload (scenario_fresh ())"
    unfolding s
    using i no_nested_payload_invariant [of "()" "init_state ()" "PyObj 1 True" "VInt 0" "Some ''app''"]
    by simp
  have u: "unwrap (scenario_fresh ()) (PyComp 0) = PyObj 1 True"
    by (simp add: unwrap_def inner_def scenario_fresh_comps)
  have n: "fst (Component (PyComp 0) (VInt 0) None (scenario_fresh ())) = 1"
    by (simp add: fst_Component scenario_fresh_def Component_def Let_def set_comp_def init_state_def)
  from f no_nested_payload_invariant [of "()" "scenario_fresh ()" "PyComp 0" "VInt 0" None]
  have 1: "no_nested_payload (snd (Component (PyComp 0) (VInt 0) None (scenario_fresh ()))) \<and>
     comp_o (comps (snd (Component (PyComp 0) (VInt 0) None (scenario_fresh ()))) 1) = PyObj 1 True"
    by (simp add: u n)
  from f no_nested_payload_invariant [of "()" "scenario_fresh ()" "PyComp 0" VNone None 0]
  have 2: "no_nested_payload (snd (becomes 0 (PyComp 0) VNone None (scenario_fresh ()))) \<and>
     no_nested_payload (snd (call 0 (PyComp 0) VNone None (scenario_fresh ()))) \<and>
     comp_o (comps (snd (call 0 (PyComp 0) VNone None (scenario_fresh ()))) 0) = PyObj 1 True"
    by (simp add: u)
  show ?thesis using i 1 2 by simp
qed

text \<open>
  C7 (postconditions of \<open>becomes\<close>), as the claim states it, fails on the url: supplied
  with the empty string, \<open>becomes\<close> keeps the previous url, here \<open>"app"\<close>.
\<close>

theorem becomes_empty_url_counterexample:
  "comp_url (comps (snd (becomes 0 (PyObj 2 True) (VInt 0) (Some '''') (scenario_fresh ()))) 0) =
     Some ''app'' \<and>
   comp_url (comps (snd (becomes 0 (PyObj 2 True) (VInt 0) (Some '''') (scenario_fresh ()))) 0) \<noteq>
     Some ''''"
  by (simp add: comps_becomes scenario_fresh_comps url_or_def)

text \<open>
  C7, amended. \<open>c.becomes(o, view, url)\<close> returns \<open>c\<close>; in place, the payload of \<open>c\<close> is
  \<open>o\<close> unwrapped and its view is the one supplied; its url is the one supplied when that
  is a non-empty string, and the previous one when \<open>None\<close> or the empty string is
  supplied; its channel and its listener are untouched, and so is every other component.
\<close>

theorem becomes_post:
  "fst (becomes self ob model url st) = self \<and>
   comp_o (comps (snd (becomes self ob model url st)) self) = unwrap st ob \<and>
   unwrap st (PyComp a) = comp_o (comps st a) \<and>
   (\<not> isinstance_Component ob \<longrightarrow> unwrap st ob = ob) \<and>
   comp_model (comps (snd (becomes self ob model url st)) self) = model \<and>
   comp_url (comps (snd (becomes self ob model url st)) self) =
     (if url = None \<or> url = Some [] then comp_url (comps st self) else url) \<and>
   comp_channel (comps (snd (becomes self ob model url st)) self) = comp_channel (comps st self) \<and>
   comp_on_answer (comps (snd (becomes self ob model url st)) self) =
     comp_on_answer (comps st self) \<and>
   (\<forall>b. b \<noteq> self \<longrightarrow> comps (snd (becomes self ob model url st)) b = comps st b)"
  by (simp add: comps_becomes url_or_def unwrap_plain)
     (simp add: becomes_def Let_def unwrap_def inner_def)

theorem becomes_post_witness:
  "\<not> isinstance_Component (PyObj 2 True) \<and> (1::nat) \<noteq> 0 \<and>
   fst (becomes 0 (PyObj 2 True) (VStr ''edit'') (Some ''other'') (scenario_fresh ())) = 0 \<and>
   comps (snd (becomes 0 (PyObj 2 True) (VStr ''edit'') (Some ''other'') (scenario_fresh ()))) 0 =
     \<lparr>comp_o = PyObj 2 True, comp_channel = None, comp_model = VStr ''edit'',
      comp_url = Some ''other'', comp_on_answer = None\<rparr> \<and>
   comps (snd (becomes 0 (PyObj 2 True) (VStr ''edit'') (Some ''other'') (scenario_fresh ()))) 1 =
     comps (scenario_fresh ()) 1"
proof -
  let ?st' = "snd (becomes 0 (PyObj 2 True) (VStr ''edit'') (Some ''other'') (scenario_fresh ()))"
  from becomes_post [of 0 "PyObj 2 True" "VStr ''edit''" "Some ''other''" "scenario_fresh ()"]
  have "fst (becomes 0 (PyObj 2 True) (VStr ''edit'') (Some ''other'') (scenario_fresh ())) = 0 \<and>
    comp_o (comps ?st' 0) = PyObj 2 True \<and> comp_model (comps ?st' 0) = VStr ''edit'' \<and>
    comp_url (comps ?st' 0) = Some ''other'' \<and> comp_channel (comps ?st' 0) = None \<and>
    comp_on_answer (comps ?st' 0) = None \<and> comps ?st' 1 = comps (scenario_fresh ()) 1"
    by (simp add: scenario_fresh_comps)
  then show ?thesis
    by (cases "comps ?st' 0") simp
qed

section \<open>Tasks\<close>








section \<open>Rendering and initialisation from a url\<close>

lemma and_then_Inr: "m = (Inr v, s) \<Longrightarrow> and_then m k = k v s"
  by (simp add: and_then_def)

lemma and_then_Inl: "m = (Inl e, s) \<Longrightarrow> and_then m k = (Inl e, s)"
  by (simp add: and_then_def)

lemma and_then_not_Inr:
  "(\<And>v s. fst (k v s) \<noteq> Inr w) \<Longrightarrow> fst (and_then m k) \<noteq> Inr w"
  by (cases m; cases "fst m") (auto simp add: and_then_def)

text \<open>
  C8 (render dispatch of a component). When \<open>renderer.new()\<close> returns the child
  renderer, \<open>start_rendering(component, view)\<close> on the child returns, and the payload of
  the component, rendered with the child renderer under the effective view, produces
  \<open>output\<close>, then rendering the component is \<open>end_rendering(output)\<close> on the child. The
  effective view is the argument, unless the argument is 0: then it is the view of the
  component.
\<close>

theorem render_dispatch:
  assumes "renderer_new env renderer st = (Inr child, st1)"
      and "start_rendering env child self model st1 = (Inr x, st2)"
      and "presentation_render env (comp_o (comps st2 self)) child self
             (if model = VInt 0 then comp_model (comps st2 self) else model) st2 =
           (Inr output, st3)"
  shows "Component_render env self renderer model st = end_rendering env child output st3"
  using assms
  by (simp add: Component_render_def render_def and_then_Inr [OF assms(1)]
      and_then_Inr [OF assms(2)] Let_def inner_def and_then_def)

text \<open>
  The component of the scenario, given the view \<open>"edit"\<close>: rendered with the default
  argument it renders its payload under \<open>"edit"\<close>; rendered with the argument \<open>None\<close> it
  renders it under \<open>None\<close>.
\<close>

theorem render_dispatch_witness:
  "Component_render recording_presentation 0 0 (VInt 0)
     (snd (becomes 0 (PyObj 1 True) (VStr ''edit'') None (scenario_fresh []))) =
   (Inr (PyStr ''[edit]''),
    (snd (becomes 0 (PyObj 1 True) (VStr ''edit'') None (scenario_fresh [])))
      \<lparr>ext := [New 0, Start_rendering 1 0 (VInt 0), Render (PyObj 1 True) 1 0 (VStr ''edit''),
               End_rendering 1 (PyStr ''edit'')]\<rparr>) \<and>
   Component_render recording_presentation 0 0 VNone
     (snd (becomes 0 (PyObj 1 True) (VStr ''edit'') None (scenario_fresh []))) =
   (Inr (PyStr ''[default]''),
    (snd (becomes 0 (PyObj 1 True) (VStr ''edit'') None (scenario_fresh [])))
      \<lparr>ext := [New 0, Start_rendering 1 0 VNone, Render (PyObj 1 True) 1 0 VNone,
               End_rendering 1 (PyStr ''default'')]\<rparr>)"
proof -
  let ?st = "snd (becomes 0 (PyObj 1 True) (VStr ''edit'') None
                (scenario_fresh ([]::render_event list)))"
  have e: "ext ?st = []"
    by (simp add: becomes_def Let_def set_comp_fields scenario_fresh_fields)
  have c: "comp_o (comps ?st 0) = PyObj 1 True" "comp_model (comps ?st 0) = VStr ''edit''"
    by (simp_all add: comps_becomes unwrap_def)
  have n: "renderer_new recording_presentation 0 ?st = (Inr 1, ?st\<lparr>ext := [New 0]\<rparr>)"
    using e by (simp add: recording_presentation_def)
  have s: "start_rendering recording_presentation 1 0 model (?st\<lparr>ext := [New 0]\<rparr>) =
      (Inr PyNone, ?st\<lparr>ext := [New 0, Start_rendering 1 0 model]\<rparr>)" for model
    by (simp add: recording_presentation_def)
  have p0: "presentation_render recording_presentation
        (comp_o (comps (?st\<lparr>ext := [New 0, Start_rendering 1 0 (VInt 0)]\<rparr>) 0)) 1 0
        (if VInt 0 = VInt 0
         then comp_model (comps (?st\<lparr>ext := [New 0, Start_rendering 1 0 (VInt 0)]\<rparr>) 0)
         else VInt 0)
        (?st\<lparr>ext := [New 0, Start_rendering 1 0 (VInt 0)]\<rparr>) =
      (Inr (PyStr ''edit''),
       ?st\<lparr>ext := [New 0, Start_rendering 1 0 (VInt 0),
                      Render (PyObj 1 True) 1 0 (VStr ''edit'')]\<rparr>)"
    using c by (simp add: recording_presentation_def)
  have p1: "presentation_render recording_presentation
        (comp_o (comps (?st\<lparr>ext := [New 0, Start_rendering 1 0 VNone]\<rparr>) 0)) 1 0
        (if VNone = VInt 0
         then comp_model (comps (?st\<lparr>ext := [New 0, Start_rendering 1 0 VNone]\<rparr>) 0)
         else VNone)
        (?st\<lparr>ext := [New 0, Start_rendering 1 0 VNone]\<rparr>) =
      (Inr (PyStr ''default''),
       ?st\<lparr>ext := [New 0, Start_rendering 1 0 VNone, Render (PyObj 1 True) 1 0 VNone]\<rparr>)"
    using c by (simp add: recording_presentation_def)
  have r0: "Component_render recording_presentation 0 0 (VInt 0) ?st =
      (Inr (PyStr ''[edit]''),
       ?st\<lparr>ext := [New 0, Start_rendering 1 0 (VInt 0), Render (PyObj 1 True) 1 0 (VStr ''edit''),
               End_rendering 1 (PyStr ''edit'')]\<rparr>)"
    unfolding render_dispatch [OF n s p0]
    by (simp add: recording_presentation_def)
  have r1: "Component_render recording_presentation 0 0 VNone ?st =
      (Inr (PyStr ''[default]''),
       ?st\<lparr>ext := [New 0, Start_rendering 1 0 VNone, Render (PyObj 1 True) 1 0 VNone,
               End_rendering 1 (PyStr ''default'')]\<rparr>)"
    unfolding render_dispatch [OF n s p1]
    by (simp add: recording_presentation_def)
  show ?thesis
    using r0 r1 by blast
qed

text \<open>
  C5 (not-found signalling), evaluated on the code. \<open>Component.init\<close> never returns the
  not-found signal, whatever the payload does with the url: \<open>init_for\<close> calls the
  payload's initialisation and drops its result. In the scenario the payload answers
  \<open>NOT_FOUND\<close> to the url \<open>missing\<close>, and \<open>Component.init\<close> returns \<open>None\<close>.
\<close>

theorem Component_init_never_not_found:
  "fst (Component_init env self url http_method request st) \<noteq> Inr NOT_FOUND \<and>
   presentation_init recording_presentation
       (inner (scenario_fresh ([]::render_event list)) 0) [''missing''] 0
     ''GET'' () (scenario_fresh []) = (Inr NOT_FOUND, scenario_fresh []) \<and>
   Component_init recording_presentation 0 [''missing''] ''GET'' () (scenario_fresh []) =
     (Inr PyNone, scenario_fresh [])"
proof -
  have "fst (Component_init env self url http_method request st) \<noteq> Inr NOT_FOUND"
    unfolding Component_init_def init_for_def
    by (rule and_then_not_Inr) (simp add: NOT_FOUND_def)
  then show ?thesis
    by (simp add: Component_init_def init_for_def and_then_def recording_presentation_def)
qed

section \<open>The security API\<close>

lemma wrapper_None: "wrapper action PyNone subject = action"
  by (simp add: wrapper_def)

lemma invoke_wrapper:
  "perm \<noteq> PyNone \<Longrightarrow>
   invoke env (wrapper action perm subject) args rq =
     call_with_permissions env PyNone (invoke env action) perm subject args rq"
  by (simp add: wrapper_def)

lemma check_permissions_unfolded:
  "check_permissions env perm subject rq =
     and_then (has_permission env (get_manager rq) (get_user rq) perm subject rq)
       (\<lambda>credential rq1.
          if truthy credential then (Inr credential, rq1)
          else and_then
                 (denies env (get_manager rq1)
                    (if credential = PyBool False then PyStr [] else credential) rq1)
                 (\<lambda>_ rq2. (Inr (if credential = PyBool False then PyStr [] else credential),
                            rq2)))"
  unfolding check_permissions_def has_permissions_def Let_def
  by (rule arg_cong [where f = "and_then _"]) (auto simp add: fun_eq_iff)

text \<open>
  C9 (security wrapping), evaluated on the code. The docstrings of \<open>wrapper\<close> and of
  \<open>call_with_permissions\<close> name the subject as the object to check the permissions on,
  and \<open>self\<close> as standing in when it is \<open>None\<close>; the code tests \<open>__subject or self\<close>, the
  truth of the subject. With the configured subject \<open>PyObj 7 False\<close>, an object that is
  not \<open>None\<close> and whose class makes it false (an empty container, say), the wrapped action
  has the permission checked on \<open>None\<close>, not on the configured subject: the manager
  records \<open>has_permission(None, "edit", None)\<close>, and then the action.
\<close>

theorem wrapper_falsy_subject_checked_on_None:
  "world (snd (invoke (recording_security (\<lambda>u perm subject. PyBool True))
                 (wrapper (Function 1) (PyStr ''edit'') (PyObj 7 False)) []
                 (scenario_request None))) =
     [Has_permission None (PyStr ''edit'') PyNone, Applied 1 []] \<and>
   Has_permission None (PyStr ''edit'') PyNone \<noteq>
     Has_permission None (PyStr ''edit'') (PyObj 7 False)"
  by (simp add: wrapper_def call_with_permissions_def check_permissions_def
      has_permissions_def get_user_def private_get_user_def get_manager_def py_or_def
      and_then_def recording_security_def scenario_request_def)

text \<open>
  What the code does for every subject. With the permission \<open>None\<close> the wrapper returns
  the action unchanged. Otherwise the first thing invoking the wrapped action does is
  to ask \<open>has_permission\<close> of the current security manager, for the current user as
  \<open>get_user\<close> gives it and the permission; the subject it hands over is the configured one
  only when that is true. With a true credential the action is invoked next. With a
  false one \<open>denies\<close> of the manager is invoked next, before anything else, on the empty
  string for the boolean \<open>False\<close> and on the credential itself otherwise, and the action
  is invoked only when \<open>denies\<close> returns; an exception of either manager method ends the
  invocation.
\<close>

lemma wrapper_checks_permissions:
  "wrapper action PyNone subject = action \<and>
   (perm \<noteq> PyNone \<longrightarrow>
      invoke env (wrapper action perm subject) args rq =
        and_then
          (has_permission env (get_manager rq) (get_user rq) perm
             (if truthy subject then subject else PyNone) rq)
          (\<lambda>credential rq1.
             if truthy credential then invoke env action args rq1
             else and_then
                    (denies env (get_manager rq1)
                       (if credential = PyBool False then PyStr [] else credential) rq1)
                    (\<lambda>_ rq2. invoke env action args rq2)))"
proof -
  have "invoke env (wrapper action perm subject) args rq =
        and_then
          (has_permission env (get_manager rq) (get_user rq) perm
             (if truthy subject then subject else PyNone) rq)
          (\<lambda>credential rq1.
             if truthy credential then invoke env action args rq1
             else and_then
                    (denies env (get_manager rq1)
                       (if credential = PyBool False then PyStr [] else credential) rq1)
                    (\<lambda>_ rq2. invoke env action args rq2))"
    if "perm \<noteq> PyNone"
    unfolding invoke_wrapper [OF that] call_with_permissions_def check_permissions_unfolded
    by (simp add: py_or_def and_then_def split: prod.splits sum.splits)
  then show ?thesis
    by (simp add: wrapper_None)
qed

text \<open>
  A manager that denies everything with the boolean \<open>False\<close>: \<open>denies("")\<close> raises before
  the action. A manager that grants everything: the action runs after the check.
\<close>

lemma wrapper_checks_permissions_example:
  "PyStr ''edit'' \<noteq> PyNone \<and>
   invoke (recording_security (\<lambda>u perm subject. PyBool False))
     (wrapper (Function 1) (PyStr ''edit'') (PyObj 7 True)) [] (scenario_request None) =
   (Inl (Exc 403),
    (scenario_request None)
      \<lparr>world := [Has_permission None (PyStr ''edit'') (PyObj 7 True), Denies (PyStr '''')]\<rparr>) \<and>
   invoke (recording_security (\<lambda>u perm subject. PyBool True))
     (wrapper (Function 1) (PyStr ''edit'') (PyObj 7 True)) [] (scenario_request None) =
   (Inr PyNone,
    (scenario_request None)
      \<lparr>world := [Has_permission None (PyStr ''edit'') (PyObj 7 True), Applied 1 []]\<rparr>)"
proof -
  have p: "PyStr ''edit'' \<noteq> PyNone" by simp
  from wrapper_checks_permissions [where perm = "PyStr ''edit''"
      and env = "recording_security (\<lambda>u perm subject. PyBool False)"
      and action = "Function 1" and subject = "PyObj 7 True" and args = "[]"
      and rq = "scenario_request None"] p
  have 1: "invoke (recording_security (\<lambda>u perm subject. PyBool False))
     (wrapper (Function 1) (PyStr ''edit'') (PyObj 7 True)) [] (scenario_request None) =
   (Inl (Exc 403),
    (scenario_request None)
      \<lparr>world := [Has_permission None (PyStr ''edit'') (PyObj 7 True), Denies (PyStr '''')]\<rparr>)"
    by (simp add: get_user_def private_get_user_def get_manager_def and_then_def
        recording_security_def scenario_request_def)
  from wrapper_checks_permissions [where perm = "PyStr ''edit''"
      and env = "recording_security (\<lambda>u perm subject. PyBool True)"
      and action = "Function 1" and subject = "PyObj 7 True" and args = "[]"
      and rq = "scenario_request None"] p
  have 2: "invoke (recording_security (\<lambda>u perm subject. PyBool True))
     (wrapper (Function 1) (PyStr ''edit'') (PyObj 7 True)) [] (scenario_request None) =
   (Inr PyNone,
    (scenario_request None)
      \<lparr>world := [Has_permission None (PyStr ''edit'') (PyObj 7 True), Applied 1 []]\<rparr>)"
    by (simp add: get_user_def private_get_user_def get_manager_def and_then_def
        recording_security_def scenario_request_def)
  show ?thesis
    using p 1 2 by blast
qed

text \<open>
  C10 (expired users are hidden). \<open>get_user()\<close> is \<open>None\<close> exactly when no current user is
  set or the current user has expired; a user it returns is the current user and has
  not expired; and \<open>has_permissions\<close> hands the manager what \<open>get_user()\<close> returns, so
  \<open>None\<close> for an expired user.
\<close>

theorem expired_users_hidden:
  "(get_user rq = None) =
     (request_user rq = None \<or> (\<exists>u. request_user rq = Some u \<and> expired u)) \<and>
   (get_user rq = Some u \<longrightarrow> request_user rq = Some u \<and> \<not> expired u) \<and>
   has_permissions env perm subject rq =
     has_permission env (get_manager rq) (get_user rq) perm subject rq \<and>
   (request_user rq = Some u \<and> expired u \<longrightarrow>
      has_permissions env perm subject rq =
        has_permission env (get_manager rq) None perm subject rq)"
  by (auto simp add: get_user_def private_get_user_def has_permissions_def
      split: option.splits if_splits)

text \<open>An expired user and a current one, seen through \<open>get_user\<close> and by the manager.\<close>

theorem expired_users_hidden_witness:
  "request_user (scenario_request (Some \<lparr>user_id = 3, expired = True\<rparr>)) =
     Some \<lparr>user_id = 3, expired = True\<rparr> \<and>
   expired \<lparr>user_id = 3, expired = True\<rparr> \<and>
   get_user (scenario_request (Some \<lparr>user_id = 3, expired = True\<rparr>)) = None \<and>
   world (snd (has_permissions (recording_security (\<lambda>u perm subject. PyBool True))
                 (PyStr ''edit'') PyNone
                 (scenario_request (Some \<lparr>user_id = 3, expired = True\<rparr>)))) =
     [Has_permission None (PyStr ''edit'') PyNone] \<and>
   get_user (scenario_request (Some \<lparr>user_id = 4, expired = False\<rparr>)) =
     Some \<lparr>user_id = 4, expired = False\<rparr> \<and>
   \<not> expired \<lparr>user_id = 4, expired = False\<rparr>"
proof -
  let ?old = "\<lparr>user_id = 3, expired = True\<rparr>"
  let ?new = "\<lparr>user_id = 4, expired = False\<rparr>"
  have r: "request_user (scenario_request (Some ?old)) = Some ?old \<and> expired ?old"
    by (simp add: scenario_request_def)
  from expired_users_hidden [where rq = "scenario_request (Some ?old)" and u = ?old] r
  have 1: "get_user (scenario_request (Some ?old)) = None"
    by blast
  from expired_users_hidden [where rq = "scenario_request (Some ?old)" and u = ?old
      and env = "recording_security (\<lambda>u perm subject. PyBool True)"
      and perm = "PyStr ''edit''" and subject = PyNone] r
  have "has_permissions (recording_security (\<lambda>u perm subject. PyBool True))
          (PyStr ''edit'') PyNone (scenario_request (Some ?old)) =
        has_permission (recording_security (\<lambda>u perm subject. PyBool True))
          (get_manager (scenario_request (Some ?old))) None (PyStr ''edit'') PyNone
          (scenario_request (Some ?old))"
    by blast
  then have 2: "world (snd (has_permissions (recording_security (\<lambda>u perm subject. PyBool True))
                 (PyStr ''edit'') PyNone (scenario_request (Some ?old)))) =
     [Has_permission None (PyStr ''edit'') PyNone]"
    by (simp add: recording_security_def scenario_request_def)
  have g: "get_user (scenario_request (Some ?new)) = Some ?new"
    by (simp add: get_user_def private_get_user_def scenario_request_def)
  from expired_users_hidden [where rq = "scenario_request (Some ?new)" and u = ?new] g
  have 3: "\<not> expired ?new"
    by blast
  show ?thesis
    using r 1 2 g 3 by blast
qed

end
